theory Spec2Isabelle
  imports Main
begin

section \<open>The capacity table\<close>

text \<open>
  The tracker keeps one item per area in a single DynamoDB table, keyed by the pair
  \<open>(PK, SK) = ("AREA#" + area_id, "METADATA")\<close>. The attributes are those of the
  \<open>DynamoDBItem\<close> schema of \<open>models.py\<close>, plus the \<open>update_count\<close> attribute that
  the Lambda function of \<open>capacity_updater.py\<close> adds. The store has no schema beyond the
  key, so every other attribute may be absent from an item: it is an \<open>option\<close>, and
  reading an absent one with \<open>item['...']\<close> is Python's \<open>KeyError\<close>.

  Numbers are Python's unbounded integers; the clock (\<open>datetime.utcnow().isoformat()\<close>)
  is the parameter \<open>now\<close> of every operation that reads it. The calls to the store
  itself are taken to succeed: a failure of the service (boto3's \<open>ClientError\<close>) is
  outside this model.
\<close>

datatype error =
    KeyError string
  | ValidationError
  | Exception string
  | HTTPException nat

record item =
  PK :: string
  SK :: string
  area_id :: "string option"
  name :: "string option"
  current_count :: "int option"
  max_capacity :: "int option"
  is_open :: "bool option"
  last_updated :: "string option"
  created_at :: "string option"
  update_count :: "int option"

type_synonym table = "item list"

text \<open>
  \<open>area_pk\<close> is the partition key \<open>f"AREA#{area_id}"\<close> that every operation builds.
  A table is the list of its items; a key occurs in it at most once when it is built
  by the operations below, and a scan returns the items in the order of the list.
  The three operations of the table resource that the program calls follow. \<open>get_item\<close> finds
  the item with the given key. \<open>put_item\<close> writes an item, replacing the one with the
  same key if there is one. \<open>update_item\<close> (always called with
  \<open>ReturnValues='ALL_NEW'\<close> and without a condition expression) edits the item with the
  given key, starting from an item holding only the key when there is none, and returns
  the attributes of the item as written; its fourth argument is the meaning of the
  update expression.
\<close>

definition area_pk :: "string \<Rightarrow> string" where
  "area_pk area = ''AREA#'' @ area"

definition get_item :: "table \<Rightarrow> string \<Rightarrow> string \<Rightarrow> item option" where
  "get_item t pk sk = find (\<lambda>it. PK it = pk \<and> SK it = sk) t"

fun put_item :: "table \<Rightarrow> item \<Rightarrow> table" where
  "put_item [] new = [new]"
| "put_item (it # t) new =
     (if PK it = PK new \<and> SK it = SK new then new # t else it # put_item t new)"

definition key_only :: "string \<Rightarrow> string \<Rightarrow> item" where
  "key_only pk sk =
     \<lparr>PK = pk, SK = sk, area_id = None, name = None, current_count = None,
      max_capacity = None, is_open = None, last_updated = None, created_at = None,
      update_count = None\<rparr>"

definition old_item :: "table \<Rightarrow> string \<Rightarrow> string \<Rightarrow> item" where
  "old_item t pk sk = (case get_item t pk sk of None \<Rightarrow> key_only pk sk | Some it \<Rightarrow> it)"

definition update_item ::
  "table \<Rightarrow> string \<Rightarrow> string \<Rightarrow> (item \<Rightarrow> item) \<Rightarrow> table \<times> item option" where
  "update_item t pk sk expr =
     (let new = expr (old_item t pk sk) in (put_item t new, Some new))"

text \<open>
  The four update expressions of the program.
  \<^item> \<open>SET current_count = if_not_exists(current_count, :zero) + :inc, last_updated = :timestamp\<close>
  \<^item> the same followed by \<open>ADD update_count :one\<close> (an absent number counts as 0)
  \<^item> \<open>SET current_count = :count, last_updated = :timestamp\<close>
  \<^item> \<open>SET current_count = :zero\<close>
\<close>

definition if_not_exists :: "int option \<Rightarrow> int \<Rightarrow> int" where
  "if_not_exists attr dflt = (case attr of None \<Rightarrow> dflt | Some v \<Rightarrow> v)"

definition set_count_inc :: "int \<Rightarrow> string \<Rightarrow> item \<Rightarrow> item" where
  "set_count_inc inc ts it =
     it\<lparr>current_count := Some (if_not_exists (current_count it) 0 + inc),
        last_updated := Some ts\<rparr>"

definition set_count_inc_add_one :: "int \<Rightarrow> string \<Rightarrow> item \<Rightarrow> item" where
  "set_count_inc_add_one inc ts it =
     it\<lparr>current_count := Some (if_not_exists (current_count it) 0 + inc),
        last_updated := Some ts,
        update_count := Some (if_not_exists (update_count it) 0 + 1)\<rparr>"

definition set_count_ts :: "int \<Rightarrow> string \<Rightarrow> item \<Rightarrow> item" where
  "set_count_ts c ts it = it\<lparr>current_count := Some c, last_updated := Some ts\<rparr>"

definition set_count_zero :: "item \<Rightarrow> item" where
  "set_count_zero it = it\<lparr>current_count := Some 0\<rparr>"

text \<open>The count stored for an area, as a reader of the table sees it.\<close>

definition stored_count :: "table \<Rightarrow> string \<Rightarrow> int option" where
  "stored_count t area =
     (case get_item t (area_pk area) ''METADATA'' of
        None \<Rightarrow> None
      | Some it \<Rightarrow> current_count it)"

definition stored_update_count :: "table \<Rightarrow> string \<Rightarrow> int option" where
  "stored_update_count t area =
     (case get_item t (area_pk area) ''METADATA'' of
        None \<Rightarrow> None
      | Some it \<Rightarrow> update_count it)"

section \<open>The Lambda function (capacity_updater.py)\<close>

text \<open>
  \<open>update_capacity(area_id, action, count)\<close>: one atomic counter update, then a second
  write that resets the count to zero when the first one left it negative. It returns
  the attributes of the last write.
\<close>

definition lambda_update_capacity ::
  "table \<Rightarrow> string \<Rightarrow> string \<Rightarrow> int \<Rightarrow> string \<Rightarrow> (error + item) \<times> table" where
  "lambda_update_capacity t area action cnt now =
     (let pk = area_pk area; sk = ''METADATA'';
          increment = (if action = ''enter'' then cnt else - cnt)
      in case update_item t pk sk (set_count_inc_add_one increment now) of
           (t1, None) \<Rightarrow> (Inl (KeyError ''Attributes''), t1)
         | (t1, Some updated_item) \<Rightarrow>
             (case current_count updated_item of
                None \<Rightarrow> (Inl (KeyError ''current_count''), t1)
              | Some c \<Rightarrow>
                  if c < 0 then
                    (case update_item t1 pk sk set_count_zero of
                       (t2, None) \<Rightarrow> (Inl (KeyError ''Attributes''), t2)
                     | (t2, Some updated_item') \<Rightarrow> (Inr updated_item', t2))
                  else (Inr updated_item, t1)))"

section \<open>The data models (models.py)\<close>

record AreaCapacity =
  area_id :: string
  name :: string
  current_count :: int
  max_capacity :: int
  is_open :: bool
  last_updated :: string

text \<open>
  The constructor of \<open>AreaCapacity\<close> validates \<open>current_count >= 0\<close> and
  \<open>max_capacity > 0\<close>; the validator \<open>validate_current_count\<close> returns its argument
  unchanged.
\<close>

definition new_AreaCapacity ::
  "string \<Rightarrow> string \<Rightarrow> int \<Rightarrow> int \<Rightarrow> bool \<Rightarrow> string \<Rightarrow> error + AreaCapacity" where
  "new_AreaCapacity a n c m b l =
     (if c < 0 \<or> m \<le> 0 then Inl ValidationError
      else Inr \<lparr>area_id = a, name = n, current_count = c, max_capacity = m,
                is_open = b, last_updated = l\<rparr>)"

text \<open>
  The conversion of an item into an \<open>AreaCapacity\<close>, which \<open>database.py\<close> writes out
  in each of its reading and updating methods: \<open>item['area_id']\<close>, \<open>item['name']\<close>,
  \<open>item['current_count']\<close> and \<open>item['max_capacity']\<close> must be present (in this
  order), \<open>is_open\<close> defaults to \<open>True\<close> and \<open>last_updated\<close> to the current time.
\<close>

definition area_of_item :: "item \<Rightarrow> string \<Rightarrow> error + AreaCapacity" where
  "area_of_item it now =
     (case item.area_id it of
        None \<Rightarrow> Inl (KeyError ''area_id'')
      | Some a \<Rightarrow>
     (case item.name it of
        None \<Rightarrow> Inl (KeyError ''name'')
      | Some n \<Rightarrow>
     (case item.current_count it of
        None \<Rightarrow> Inl (KeyError ''current_count'')
      | Some c \<Rightarrow>
     (case item.max_capacity it of
        None \<Rightarrow> Inl (KeyError ''max_capacity'')
      | Some m \<Rightarrow>
          new_AreaCapacity a n c m
            (case item.is_open it of None \<Rightarrow> True | Some b \<Rightarrow> b)
            (case item.last_updated it of None \<Rightarrow> now | Some l \<Rightarrow> l)))))"

section \<open>The database manager (database.py)\<close>

text \<open>
  \<open>self.table\<close> is either the table resource or \<open>None\<close> (when the connection could
  not be set up): the flag \<open>self_table\<close> says which. Every method returns its result,
  or the exception it raises, together with the table as it leaves it.
\<close>

definition some_area :: "error + AreaCapacity \<Rightarrow> error + AreaCapacity option" where
  "some_area r = (case r of Inl e \<Rightarrow> Inl e | Inr a \<Rightarrow> Inr (Some a))"

fun parse_items :: "item list \<Rightarrow> string \<Rightarrow> AreaCapacity list" where
  "parse_items [] now = []"
| "parse_items (it # items) now =
     (case area_of_item it now of
        Inl e \<Rightarrow> parse_items items now
      | Inr area \<Rightarrow> area # parse_items items now)"

definition get_all_areas :: "bool \<Rightarrow> table \<Rightarrow> string \<Rightarrow> error + AreaCapacity list" where
  "get_all_areas self_table t now =
     (if \<not> self_table then Inr []
      else Inr (parse_items (filter (\<lambda>it. SK it = ''METADATA'') t) now))"

definition get_area ::
  "bool \<Rightarrow> table \<Rightarrow> string \<Rightarrow> string \<Rightarrow> error + AreaCapacity option" where
  "get_area self_table t area now =
     (if \<not> self_table then Inr None
      else case get_item t (area_pk area) ''METADATA'' of
             None \<Rightarrow> Inr None
           | Some it \<Rightarrow> some_area (area_of_item it now))"

definition set_capacity ::
  "bool \<Rightarrow> table \<Rightarrow> string \<Rightarrow> int \<Rightarrow> string \<Rightarrow> (error + AreaCapacity option) \<times> table" where
  "set_capacity self_table t area cnt now =
     (if \<not> self_table then (Inr None, t)
      else case update_item t (area_pk area) ''METADATA'' (set_count_ts (max 0 cnt) now) of
             (t1, None) \<Rightarrow> (Inr None, t1)
           | (t1, Some it) \<Rightarrow> (some_area (area_of_item it now), t1))"

definition db_update_capacity ::
  "bool \<Rightarrow> table \<Rightarrow> string \<Rightarrow> string \<Rightarrow> string \<Rightarrow> (error + AreaCapacity option) \<times> table" where
  "db_update_capacity self_table t area action now =
     (if \<not> self_table then (Inr None, t)
      else
        let increment = (if action = ''enter'' then 1 else - 1)
        in case update_item t (area_pk area) ''METADATA'' (set_count_inc increment now) of
             (t1, None) \<Rightarrow> (Inr None, t1)
           | (t1, Some it) \<Rightarrow>
               (case item.current_count it of
                  None \<Rightarrow> (Inl (KeyError ''current_count''), t1)
                | Some c \<Rightarrow>
                    if c < 0 then
                      (case set_capacity self_table t1 area 0 now of
                         (Inl e, t2) \<Rightarrow> (Inl e, t2)
                       | (Inr _, t2) \<Rightarrow>
                           (some_area (area_of_item (it\<lparr>item.current_count := Some 0\<rparr>) now), t2))
                    else (some_area (area_of_item it now), t1)))"

definition create_area ::
  "bool \<Rightarrow> table \<Rightarrow> string \<Rightarrow> string \<Rightarrow> int \<Rightarrow> bool \<Rightarrow> string \<Rightarrow> (error + AreaCapacity) \<times> table" where
  "create_area self_table t area n m b now =
     (if \<not> self_table then (Inl (Exception ''DynamoDB table not initialized''), t)
      else
        let new =
              \<lparr>PK = area_pk area, SK = ''METADATA'', item.area_id = Some area,
               item.name = Some n, item.current_count = Some 0, item.max_capacity = Some m,
               item.is_open = Some b, item.last_updated = Some now, created_at = Some now,
               update_count = None\<rparr>
        in (new_AreaCapacity area n 0 m b now, put_item t new))"

section \<open>The HTTP endpoints (main.py)\<close>

text \<open>
  An endpoint either returns its response or raises \<open>HTTPException\<close> with a status
  code (the detail message is not modelled). The handlers re-raise an
  \<open>HTTPException\<close> as it is and turn every other exception into status 500. A response
  that the source builds as a dictionary literal is an association list of its keys and
  values.
\<close>

datatype json = JBool bool | JStr string | JInt int

text \<open>
  \<open>get_mock_capacity_data\<close> builds six \<open>AreaCapacity\<close> objects in a list literal;
  \<open>collect\<close> evaluates the elements from left to right and stops at the first one that
  raises.
\<close>

fun collect :: "(error + 'a) list \<Rightarrow> error + 'a list" where
  "collect [] = Inr []"
| "collect (r # rs) =
     (case r of
        Inl e \<Rightarrow> Inl e
      | Inr a \<Rightarrow> (case collect rs of Inl e \<Rightarrow> Inl e | Inr as \<Rightarrow> Inr (a # as)))"

definition get_mock_capacity_data :: "string \<Rightarrow> error + AreaCapacity list" where
  "get_mock_capacity_data now =
     collect
       [new_AreaCapacity ''weight-room'' ''Weight Room'' 45 100 True now,
        new_AreaCapacity ''cardio'' ''Cardio Area'' 32 60 True now,
        new_AreaCapacity ''track'' ''Indoor Track'' 18 50 True now,
        new_AreaCapacity ''pool'' ''Swimming Pool'' 12 40 True now,
        new_AreaCapacity ''basketball'' ''Basketball Courts'' 24 30 True now,
        new_AreaCapacity ''climbing'' ''Climbing Wall'' 8 15 True now]"

record CapacityResponse =
  timestamp :: string
  areas :: "AreaCapacity list"

definition get_all_capacity :: "bool \<Rightarrow> table \<Rightarrow> string \<Rightarrow> error + CapacityResponse" where
  "get_all_capacity self_table t now =
     (case get_all_areas self_table t now of
        Inl e \<Rightarrow> Inl (HTTPException 500)
      | Inr areas0 \<Rightarrow>
          (case (if areas0 = [] then get_mock_capacity_data now else Inr areas0) of
             Inl e \<Rightarrow> Inl (HTTPException 500)
           | Inr areas1 \<Rightarrow> Inr \<lparr>timestamp = now, areas = areas1\<rparr>))"

definition get_area_capacity :: "bool \<Rightarrow> table \<Rightarrow> string \<Rightarrow> string \<Rightarrow> error + AreaCapacity" where
  "get_area_capacity self_table t area now =
     (case get_area self_table t area now of
        Inl e \<Rightarrow> Inl (HTTPException 500)
      | Inr None \<Rightarrow> Inl (HTTPException 404)
      | Inr (Some a) \<Rightarrow> Inr a)"

text \<open>
  The request of \<open>POST /api/update\<close>. The framework builds it before the endpoint runs
  and rejects (status 422) a body whose \<open>count\<close> is outside 1..10 or whose \<open>action\<close>,
  in lower case, is neither \<open>enter\<close> nor \<open>exit\<close>: \<open>valid_request\<close> is what holds of
  every request the endpoint receives.
\<close>

record UpdateCapacityRequest =
  area_id :: string
  action :: string
  count :: int
  timestamp :: "string option"

definition valid_request :: "UpdateCapacityRequest \<Rightarrow> bool" where
  "valid_request request =
     (1 \<le> count request \<and> count request \<le> 10 \<and>
      (action request = ''enter'' \<or> action request = ''exit''))"

definition api_update_capacity ::
  "bool \<Rightarrow> table \<Rightarrow> UpdateCapacityRequest \<Rightarrow> string \<Rightarrow> (error + (string \<times> json) list) \<times> table" where
  "api_update_capacity self_table t request now =
     (if action request \<noteq> ''enter'' \<and> action request \<noteq> ''exit''
      then (Inl (HTTPException 400), t)
      else
        case db_update_capacity self_table t
               (UpdateCapacityRequest.area_id request) (action request) now of
          (Inl e, t1) \<Rightarrow> (Inl (HTTPException 500), t1)
        | (Inr None, t1) \<Rightarrow> (Inl (HTTPException 404), t1)
        | (Inr (Some updated_area), t1) \<Rightarrow>
            (Inr [(''success'', JBool True),
                  (''area_id'', JStr (UpdateCapacityRequest.area_id request)),
                  (''action'', JStr (action request)),
                  (''new_count'', JInt (current_count updated_area)),
                  (''timestamp'', JStr now)], t1))"


section \<open>Sequences of calls on one area\<close>

text \<open>
  A caller's mutations of one area, each with the time at which it runs: an update
  through the Lambda function, an update through the database manager (as
  \<open>POST /api/update\<close> makes it), and an absolute overwrite through
  \<open>set_capacity\<close> (as \<open>POST /api/reset\<close> makes it). \<open>run_calls\<close> performs them one after
  the other and lists the table as each call leaves it.
\<close>

datatype call =
    LambdaApply string int string
  | DbApply string string
  | DbSet int string

fun do_call :: "table \<Rightarrow> string \<Rightarrow> call \<Rightarrow> table" where
  "do_call t area (LambdaApply act cnt now) =
     snd (lambda_update_capacity t area act cnt now)"
| "do_call t area (DbApply act now) = snd (db_update_capacity True t area act now)"
| "do_call t area (DbSet cnt now) = snd (set_capacity True t area cnt now)"

fun run_calls :: "table \<Rightarrow> string \<Rightarrow> call list \<Rightarrow> table list" where
  "run_calls t area [] = []"
| "run_calls t area (c # cs) = do_call t area c # run_calls (do_call t area c) area cs"

fun is_LambdaApply :: "call \<Rightarrow> bool" where
  "is_LambdaApply (LambdaApply act cnt now) = True"
| "is_LambdaApply c = False"

definition nonneg_count :: "table \<Rightarrow> string \<Rightarrow> bool" where
  "nonneg_count t area = (case stored_count t area of None \<Rightarrow> False | Some c \<Rightarrow> 0 \<le> c)"

definition observed_update_counts :: "table \<Rightarrow> string \<Rightarrow> call list \<Rightarrow> int list" where
  "observed_update_counts t area calls =
     map (\<lambda>t'. if_not_exists (stored_update_count t' area) 0) (t # run_calls t area calls)"

section \<open>Concurrent invocations of the Lambda function\<close>

text \<open>
  Several invocations of \<open>update_capacity\<close> may run at the same time against the one
  table. The store performs each \<open>update_item\<close> call as one indivisible step (the
  "atomic counter" of the source's comments), so an invocation takes part in an
  interleaving with at most two steps: its counter update and, when that returned a
  negative count, its corrective write. Between the two, the calls of other invocations
  may land. \<open>invocation_step\<close> is the body of \<open>lambda_update_capacity\<close> cut at that
  point; a schedule names, step by step, the invocation that moves next.
\<close>

datatype invocation =
    Start string int string
  | Clamp
  | Finished "error + item"

fun invocation_step :: "table \<Rightarrow> string \<Rightarrow> invocation \<Rightarrow> invocation \<times> table" where
  "invocation_step t area (Start act cnt now) =
     (case update_item t (area_pk area) ''METADATA''
             (set_count_inc_add_one (if act = ''enter'' then cnt else - cnt) now) of
        (t1, None) \<Rightarrow> (Finished (Inl (KeyError ''Attributes'')), t1)
      | (t1, Some updated_item) \<Rightarrow>
          (case item.current_count updated_item of
             None \<Rightarrow> (Finished (Inl (KeyError ''current_count'')), t1)
           | Some c \<Rightarrow>
               if c < 0 then (Clamp, t1) else (Finished (Inr updated_item), t1)))"
| "invocation_step t area Clamp =
     (case update_item t (area_pk area) ''METADATA'' set_count_zero of
        (t2, None) \<Rightarrow> (Finished (Inl (KeyError ''Attributes'')), t2)
      | (t2, Some updated_item') \<Rightarrow> (Finished (Inr updated_item'), t2))"
| "invocation_step t area (Finished r) = (Finished r, t)"

fun is_Finished :: "invocation \<Rightarrow> bool" where
  "is_Finished (Finished r) = True"
| "is_Finished other = False"

fun schedule_step :: "string \<Rightarrow> table \<times> invocation list \<Rightarrow> nat \<Rightarrow> table \<times> invocation list" where
  "schedule_step area (t, invs) i =
     (if i < length invs
      then (case invocation_step t area (invs ! i) of (next_inv, t1) \<Rightarrow> (t1, invs[i := next_inv]))
      else (t, invs))"

definition run_schedule ::
  "string \<Rightarrow> table \<times> invocation list \<Rightarrow> nat list \<Rightarrow> table \<times> invocation list" where
  "run_schedule area s sched = foldl (schedule_step area) s sched"

text \<open>
  The state of a run in which every invocation is \<open>update_capacity(area, 'enter', 1)\<close>
  and the count was \<open>c\<close> at the start: each invocation has finished or has not begun,
  and the stored count is \<open>c\<close> plus the number of those that have finished.
\<close>

fun is_pending_enter :: "invocation \<Rightarrow> bool" where
  "is_pending_enter (Start act cnt now) = (act = ''enter'' \<and> cnt = 1)"
| "is_pending_enter other = False"

definition enters_pending :: "table \<Rightarrow> string \<Rightarrow> int \<Rightarrow> invocation list \<Rightarrow> bool" where
  "enters_pending t area c invs =
     (list_all (\<lambda>i. is_Finished i \<or> is_pending_enter i) invs \<and>
      stored_count t area = Some (c + int (length (filter is_Finished invs))))"

text \<open>
  A table with one area, as \<open>create_area\<close> leaves it, for the concrete runs below.
\<close>

definition example_table :: table where
  "example_table =
     snd (create_area True [] ''pool'' ''Swimming Pool'' 40 True ''2024-02-07T14:00:00'')"

section \<open>Facts about the table operations\<close>

lemma get_item_key: "get_item t pk sk = Some it \<Longrightarrow> PK it = pk \<and> SK it = sk"
  by (auto simp: get_item_def find_Some_iff)

lemma get_item_put_item:
  "get_item (put_item t new) pk sk =
     (if PK new = pk \<and> SK new = sk then Some new else get_item t pk sk)"
  by (induction t) (auto simp: get_item_def)

lemma old_item_key [simp]: "PK (old_item t pk sk) = pk" "SK (old_item t pk sk) = sk"
  by (auto simp: old_item_def key_only_def split: option.splits dest: get_item_key)

lemma update_item_eq:
  "update_item t pk sk expr =
     (put_item t (expr (old_item t pk sk)), Some (expr (old_item t pk sk)))"
  by (simp add: update_item_def Let_def)

lemma old_item_put_item:
  "PK new = pk \<Longrightarrow> SK new = sk \<Longrightarrow> old_item (put_item t new) pk sk = new"
  by (simp add: old_item_def get_item_put_item)

lemma stored_count_put_item:
  "PK new = area_pk area \<Longrightarrow> SK new = ''METADATA'' \<Longrightarrow>
   stored_count (put_item t new) area = item.current_count new"
  by (simp add: stored_count_def get_item_put_item)

lemma stored_count_old_item:
  "item.current_count (old_item t (area_pk area) ''METADATA'') = stored_count t area"
  by (simp add: stored_count_def old_item_def key_only_def split: option.splits)

text \<open>The table that each mutating operation leaves, in closed form.\<close>

lemma lambda_update_capacity_table:
  "snd (lambda_update_capacity t area act cnt now) =
     (let new = set_count_inc_add_one (if act = ''enter'' then cnt else - cnt) now
                  (old_item t (area_pk area) ''METADATA'')
      in if if_not_exists (item.current_count new) 0 < 0
         then put_item (put_item t new) (set_count_zero new)
         else put_item t new)"
  by (simp add: lambda_update_capacity_def update_item_eq Let_def old_item_put_item
      set_count_inc_add_one_def set_count_zero_def if_not_exists_def)

lemma set_capacity_table:
  "snd (set_capacity True t area cnt now) =
     put_item t (set_count_ts (max 0 cnt) now (old_item t (area_pk area) ''METADATA''))"
  by (simp add: set_capacity_def update_item_eq)

lemma db_update_capacity_inc:
  "snd (case update_item t (area_pk area) ''METADATA'' (set_count_inc inc now) of
          (t1, None) \<Rightarrow> (Inr None, t1)
        | (t1, Some it) \<Rightarrow>
            (case item.current_count it of
               None \<Rightarrow> (Inl (KeyError ''current_count''), t1)
             | Some c \<Rightarrow>
                 if c < 0 then
                   (case set_capacity True t1 area 0 now of
                      (Inl e, t2) \<Rightarrow> (Inl e, t2)
                    | (Inr _, t2) \<Rightarrow>
                        (some_area (area_of_item (it\<lparr>item.current_count := Some 0\<rparr>) now), t2))
                 else (some_area (area_of_item it now), t1))) =
     (let new = set_count_inc inc now (old_item t (area_pk area) ''METADATA'')
      in if if_not_exists (item.current_count new) 0 < 0
         then put_item (put_item t new) (set_count_ts 0 now new)
         else put_item t new)"
proof -
  let ?new = "set_count_inc inc now (old_item t (area_pk area) ''METADATA'')"
  have k: "PK ?new = area_pk area" "SK ?new = ''METADATA''"
    by (simp_all add: set_count_inc_def)
  have s: "snd (set_capacity True (put_item t ?new) area 0 now) =
      put_item (put_item t ?new) (set_count_ts 0 now ?new)"
    unfolding set_capacity_table old_item_put_item [OF k] by simp
  obtain c where c: "item.current_count ?new = Some c"
    by (simp add: set_count_inc_def)
  show ?thesis
  proof (cases "c < 0")
    case True
    obtain r t2 where r: "set_capacity True (put_item t ?new) area 0 now = (r, t2)"
      by (cases "set_capacity True (put_item t ?new) area 0 now")
    with s have t2: "t2 = put_item (put_item t ?new) (set_count_ts 0 now ?new)"
      by simp
    show ?thesis
      using True c r t2
      by (cases r) (simp_all add: update_item_eq Let_def if_not_exists_def)
  next
    case False
    then show ?thesis
      using c
      by (simp add: update_item_eq Let_def if_not_exists_def)
  qed
qed

lemma db_update_capacity_table:
  "snd (db_update_capacity True t area act now) =
     (let new = set_count_inc (if act = ''enter'' then 1 else - 1) now
                  (old_item t (area_pk area) ''METADATA'')
      in if if_not_exists (item.current_count new) 0 < 0
         then put_item (put_item t new) (set_count_ts 0 now new)
         else put_item t new)"
  unfolding db_update_capacity_def Let_def
  using db_update_capacity_inc [where inc = "if act = ''enter'' then 1 else - 1"]
  unfolding Let_def by simp

text \<open>The count that each mutating operation leaves stored.\<close>

lemma stored_count_lambda_update_capacity:
  "stored_count (snd (lambda_update_capacity t area act cnt now)) area =
     Some (max 0 (if_not_exists (stored_count t area) 0 +
                  (if act = ''enter'' then cnt else - cnt)))"
  by (simp add: lambda_update_capacity_table Let_def stored_count_put_item
      stored_count_old_item set_count_inc_add_one_def set_count_zero_def if_not_exists_def
      max_def)

lemma stored_count_db_update_capacity:
  "stored_count (snd (db_update_capacity True t area act now)) area =
     Some (max 0 (if_not_exists (stored_count t area) 0 +
                  (if act = ''enter'' then 1 else - 1)))"
  by (simp add: db_update_capacity_table Let_def stored_count_put_item stored_count_old_item
      set_count_inc_def set_count_ts_def if_not_exists_def max_def)

lemma stored_count_set_capacity:
  "stored_count (snd (set_capacity True t area cnt now)) area = Some (max 0 cnt)"
  by (simp add: set_capacity_table stored_count_put_item set_count_ts_def)

text \<open>The definitions that a concrete run unfolds.\<close>

lemmas table_defs =
  example_table_def create_area_def set_capacity_def db_update_capacity_def
  lambda_update_capacity_def update_item_def old_item_def get_item_def area_pk_def
  key_only_def set_count_inc_def set_count_inc_add_one_def set_count_ts_def
  set_count_zero_def if_not_exists_def new_AreaCapacity_def area_of_item_def some_area_def
  stored_count_def stored_update_count_def Let_def

section \<open>Clamping at zero\<close>

text \<open>
  Claim C1. For every area of the table and every delta, an update leaves stored the
  count \<open>max(0, previous count + delta)\<close>. The Lambda function applies the delta
  \<open>+count\<close> or \<open>-count\<close> (any integer), the database manager \<open>+1\<close> or \<open>-1\<close>. In
  particular an exit of 10 from a count of 3 leaves 0, not -7.
\<close>

theorem apply_clamps_at_zero:
  assumes "stored_count t area = Some c"
  shows "stored_count (snd (lambda_update_capacity t area act cnt now)) area
           = Some (max 0 (c + (if act = ''enter'' then cnt else - cnt)))
       \<and> stored_count (snd (db_update_capacity True t area act now)) area
           = Some (max 0 (c + (if act = ''enter'' then 1 else - 1)))"
  using assms
  by (simp add: stored_count_lambda_update_capacity stored_count_db_update_capacity
      if_not_exists_def)

theorem apply_clamps_at_zero_witness:
  "stored_count (snd (set_capacity True example_table ''pool'' 3 ''t1'')) ''pool'' = Some 3
   \<and> stored_count (snd (lambda_update_capacity
         (snd (set_capacity True example_table ''pool'' 3 ''t1'')) ''pool'' ''exit'' 10 ''t2''))
       ''pool'' = Some 0
   \<and> stored_count (snd (db_update_capacity True
         (snd (set_capacity True example_table ''pool'' 3 ''t1'')) ''pool'' ''exit'' ''t2''))
       ''pool'' = Some 2"
proof -
  have h: "stored_count (snd (set_capacity True example_table ''pool'' 3 ''t1'')) ''pool''
             = Some 3"
    by (simp add: table_defs)
  show ?thesis
    using h apply_clamps_at_zero [OF h, of "''exit''" 10 "''t2''"] by simp
qed

section \<open>Non-negativity\<close>

lemma nonneg_count_do_call: "nonneg_count (do_call t area c) area"
  by (cases c)
     (simp_all add: nonneg_count_def stored_count_lambda_update_capacity
        stored_count_db_update_capacity stored_count_set_capacity)

lemma nonneg_count_run_calls: "list_all (\<lambda>t'. nonneg_count t' area) (run_calls t area calls)"
  by (induction calls arbitrary: t) (simp_all add: nonneg_count_do_call)

text \<open>
  Claim C2. Starting from a table in which the area's count is not negative, and for
  every sequence of updates and overwrites of that area run one after the other, the
  stored count is not negative at the start and after every call, whatever the signs,
  sizes and order of the deltas.
\<close>

theorem count_never_negative:
  assumes "nonneg_count t area"
  shows "list_all (\<lambda>t'. nonneg_count t' area) (t # run_calls t area calls)"
  using assms by (simp add: nonneg_count_run_calls)

theorem count_never_negative_witness:
  "nonneg_count example_table ''pool''
   \<and> list_all (\<lambda>t'. nonneg_count t' ''pool'')
       (example_table # run_calls example_table ''pool''
          [LambdaApply ''enter'' 3 ''t1'', LambdaApply ''exit'' 10 ''t2'', DbApply ''exit'' ''t3'',
           DbSet (- 4) ''t4'', DbApply ''enter'' ''t5''])"
proof -
  have h: "nonneg_count example_table ''pool''"
    by (simp add: nonneg_count_def table_defs)
  show ?thesis
    using h count_never_negative [OF h, of "[LambdaApply ''enter'' 3 ''t1'',
        LambdaApply ''exit'' 10 ''t2'', DbApply ''exit'' ''t3'', DbSet (- 4) ''t4'',
        DbApply ''enter'' ''t5'']"]
    by simp
qed

section \<open>Unknown areas\<close>


lemma read_of_unknown_area:
  assumes "get_item t (area_pk area) ''METADATA'' = None"
  shows "get_area self_table t area now = Inr None"
    and "get_area_capacity self_table t area now = Inl (HTTPException 404)"
  using assms by (simp_all add: get_area_def get_area_capacity_def)

lemma update_of_unknown_area_writes:
  assumes "get_item t (area_pk area) ''METADATA'' = None"
  shows "get_item (snd (db_update_capacity True t area act now)) (area_pk area) ''METADATA'' \<noteq> None"
    and "get_item (snd (lambda_update_capacity t area act cnt now)) (area_pk area) ''METADATA'' \<noteq> None"
   apply (simp add: db_update_capacity_table Let_def get_item_put_item set_count_inc_def set_count_ts_def)
   apply (simp add: lambda_update_capacity_table Let_def get_item_put_item set_count_inc_add_one_def set_count_zero_def)
  done

text \<open>
  Claim C3. An update of an area that the table does not hold should report "not found"
  and create nothing. On the table holding only \<open>pool\<close>, the update of
  \<open>nonexistent\<close> through the database manager writes an item with a count of 1 and
  then raises \<open>KeyError\<close> on the missing \<open>area_id\<close>, which the endpoint turns into
  status 500; through the Lambda function it writes the item and returns it as a
  success.
\<close>

theorem unknown_area_update_creates_item:
  "stored_count example_table ''nonexistent'' = None
   \<and> fst (db_update_capacity True example_table ''nonexistent'' ''enter'' ''t1'')
       = Inl (KeyError ''area_id'')
   \<and> stored_count (snd (db_update_capacity True example_table ''nonexistent'' ''enter'' ''t1''))
       ''nonexistent'' = Some 1
   \<and> fst (api_update_capacity True example_table
        \<lparr>area_id = ''nonexistent'', action = ''enter'', count = 1, timestamp = None\<rparr> ''t1'')
       = Inl (HTTPException 500)
   \<and> fst (lambda_update_capacity example_table ''nonexistent'' ''enter'' 1 ''t1'')
       = Inr \<lparr>PK = ''AREA#nonexistent'', SK = ''METADATA'', item.area_id = None,
              item.name = None, item.current_count = Some 1, item.max_capacity = None,
              item.is_open = None, item.last_updated = Some ''t1'', created_at = None,
              update_count = Some 1\<rparr>
   \<and> stored_count (snd (lambda_update_capacity example_table ''nonexistent'' ''enter'' 1 ''t1''))
       ''nonexistent'' = Some 1"
  by (simp add: table_defs api_update_capacity_def)

section \<open>The delta of an event\<close>

text \<open>
  Claim C4. A valid event with action \<open>enter\<close> and count \<open>c\<close> should change the count
  by \<open>+c\<close>. The request \<open>enter\<close>, count 3 on \<open>pool\<close> at count 0, sent to
  \<open>POST /api/update\<close>, changes the count by 1: the endpoint passes the action on and
  drops the count. The Lambda function, given the same event, leaves 3.
\<close>

theorem api_update_ignores_count:
  "valid_request \<lparr>area_id = ''pool'', action = ''enter'', count = 3, timestamp = None\<rparr>
   \<and> stored_count example_table ''pool'' = Some 0
   \<and> fst (api_update_capacity True example_table
        \<lparr>area_id = ''pool'', action = ''enter'', count = 3, timestamp = None\<rparr> ''t1'')
       = Inr [(''success'', JBool True), (''area_id'', JStr ''pool''),
              (''action'', JStr ''enter''), (''new_count'', JInt 1), (''timestamp'', JStr ''t1'')]
   \<and> stored_count (snd (api_update_capacity True example_table
        \<lparr>area_id = ''pool'', action = ''enter'', count = 3, timestamp = None\<rparr> ''t1''))
       ''pool'' = Some 1
   \<and> stored_count (snd (lambda_update_capacity example_table ''pool'' ''enter'' 3 ''t1''))
       ''pool'' = Some 3"
  by (simp add: table_defs api_update_capacity_def valid_request_def)

section \<open>The update counter\<close>

lemma stored_update_count_put_item:
  "PK new = area_pk area \<Longrightarrow> SK new = ''METADATA'' \<Longrightarrow>
   stored_update_count (put_item t new) area = update_count new"
  by (simp add: stored_update_count_def get_item_put_item)

lemma update_count_old_item:
  "update_count (old_item t (area_pk area) ''METADATA'') = stored_update_count t area"
  by (simp add: stored_update_count_def old_item_def key_only_def split: option.splits)

lemma update_count_lambda_update_capacity:
  "stored_update_count (snd (lambda_update_capacity t area act cnt now)) area =
     Some (if_not_exists (stored_update_count t area) 0 + 1)"
  by (simp add: lambda_update_capacity_table Let_def stored_update_count_put_item
      update_count_old_item set_count_inc_add_one_def set_count_zero_def)

lemma update_count_db_update_capacity:
  "stored_update_count (snd (db_update_capacity True t area act now)) area =
     stored_update_count t area"
  by (simp add: db_update_capacity_table Let_def stored_update_count_put_item
      update_count_old_item set_count_inc_def set_count_ts_def)

lemma update_count_set_capacity:
  "stored_update_count (snd (set_capacity True t area cnt now)) area =
     stored_update_count t area"
  by (simp add: set_capacity_table stored_update_count_put_item update_count_old_item
      set_count_ts_def)

lemma lambda_calls_exceed:
  "list_all is_LambdaApply calls \<Longrightarrow> t' \<in> set (run_calls t area calls) \<Longrightarrow>
   if_not_exists (stored_update_count t area) 0 < if_not_exists (stored_update_count t' area) 0"
proof (induction calls arbitrary: t)
  case Nil
  then show ?case by simp
next
  case (Cons c cs)
  from Cons.prems(1) obtain act cnt now where c: "c = LambdaApply act cnt now"
    by (cases c) simp_all
  have step: "if_not_exists (stored_update_count (do_call t area c) area) 0 =
      if_not_exists (stored_update_count t area) 0 + 1"
    by (simp add: c update_count_lambda_update_capacity if_not_exists_def)
  from Cons.prems(2) consider "t' = do_call t area c" | "t' \<in> set (run_calls (do_call t area c) area cs)"
    by auto
  then show ?case
  proof cases
    case 1
    then show ?thesis using step by simp
  next
    case 2
    from Cons.prems(1) have "list_all is_LambdaApply cs" by simp
    from Cons.IH [OF this 2] show ?thesis using step by simp
  qed
qed

lemma lambda_calls_increasing:
  "list_all is_LambdaApply calls \<Longrightarrow> sorted_wrt (<) (observed_update_counts t area calls)"
proof (induction calls arbitrary: t)
  case Nil
  then show ?case by (simp add: observed_update_counts_def)
next
  case (Cons c cs)
  then have cs: "list_all is_LambdaApply cs" by simp
  have "sorted_wrt (<) (observed_update_counts (do_call t area c) area cs)"
    using Cons.IH [OF cs] .
  moreover have "\<forall>t' \<in> set (run_calls t area (c # cs)).
      if_not_exists (stored_update_count t area) 0 < if_not_exists (stored_update_count t' area) 0"
    using lambda_calls_exceed [OF Cons.prems] by blast
  ultimately show ?case
    by (simp add: observed_update_counts_def)
qed

text \<open>
  Claim C5, as amended. The counter \<open>update_count\<close> is incremented, by one, by every
  update made through the Lambda function, and by nothing else: an update through the
  database manager and an overwrite by \<open>set_capacity\<close> leave it as it was. Over any
  sequence of updates through the Lambda function the observed values (an absent
  counter reads as 0) are strictly increasing.
\<close>

theorem update_count_by_lambda_only:
  "stored_update_count (do_call t area (LambdaApply act cnt now)) area
      = Some (if_not_exists (stored_update_count t area) 0 + 1)
   \<and> stored_update_count (do_call t area (DbApply act now)) area = stored_update_count t area
   \<and> stored_update_count (do_call t area (DbSet cnt now)) area = stored_update_count t area
   \<and> (list_all is_LambdaApply calls \<longrightarrow> sorted_wrt (<) (observed_update_counts t area calls))"
  by (simp add: update_count_lambda_update_capacity update_count_db_update_capacity
      update_count_set_capacity lambda_calls_increasing)

theorem update_count_by_lambda_only_witness:
  "list_all is_LambdaApply
     [LambdaApply ''enter'' 2 ''t1'', LambdaApply ''exit'' 5 ''t2'', LambdaApply ''enter'' 1 ''t3'']
   \<and> sorted_wrt (<) (observed_update_counts example_table ''pool''
     [LambdaApply ''enter'' 2 ''t1'', LambdaApply ''exit'' 5 ''t2'', LambdaApply ''enter'' 1 ''t3''])
   \<and> stored_update_count (do_call example_table ''pool'' (DbSet 5 ''t1'')) ''pool''
       = stored_update_count example_table ''pool''"
  using update_count_by_lambda_only [of example_table "''pool''" "''enter''" 5 "''t1''"
      "[LambdaApply ''enter'' 2 ''t1'', LambdaApply ''exit'' 5 ''t2'', LambdaApply ''enter'' 1 ''t3'']"]
  by simp

text \<open>
  The claim as first stated, that every successful mutation increments the counter, fails
  for \<open>set_capacity\<close> and for the database manager's update: after one Lambda update,
  a successful overwrite and a successful update leave the counter at 1.
\<close>

theorem set_keeps_update_count:
  "fst (set_capacity True (snd (lambda_update_capacity example_table ''pool'' ''enter'' 1 ''t1''))
         ''pool'' 5 ''t2'')
     = Inr (Some \<lparr>AreaCapacity.area_id = ''pool'', name = ''Swimming Pool'', current_count = 5,
                   max_capacity = 40, is_open = True, last_updated = ''t2''\<rparr>)
   \<and> observed_update_counts example_table ''pool''
        [LambdaApply ''enter'' 1 ''t1'', DbSet 5 ''t2'', DbApply ''enter'' ''t3''] = [0, 1, 1, 1]
   \<and> \<not> sorted_wrt (<) (observed_update_counts example_table ''pool''
        [LambdaApply ''enter'' 1 ''t1'', DbSet 5 ''t2'', DbApply ''enter'' ''t3''])"
  by (simp add: observed_update_counts_def table_defs)

section \<open>Creating an area\<close>




section \<open>Overwriting the count\<close>



section \<open>Mock data\<close>

lemma get_mock_capacity_data_eq:
  "get_mock_capacity_data now =
     Inr [\<lparr>AreaCapacity.area_id = ''weight-room'', name = ''Weight Room'', current_count = 45,
            max_capacity = 100, is_open = True, last_updated = now\<rparr>,
          \<lparr>AreaCapacity.area_id = ''cardio'', name = ''Cardio Area'', current_count = 32,
            max_capacity = 60, is_open = True, last_updated = now\<rparr>,
          \<lparr>AreaCapacity.area_id = ''track'', name = ''Indoor Track'', current_count = 18,
            max_capacity = 50, is_open = True, last_updated = now\<rparr>,
          \<lparr>AreaCapacity.area_id = ''pool'', name = ''Swimming Pool'', current_count = 12,
            max_capacity = 40, is_open = True, last_updated = now\<rparr>,
          \<lparr>AreaCapacity.area_id = ''basketball'', name = ''Basketball Courts'',
            current_count = 24, max_capacity = 30, is_open = True, last_updated = now\<rparr>,
          \<lparr>AreaCapacity.area_id = ''climbing'', name = ''Climbing Wall'', current_count = 8,
            max_capacity = 15, is_open = True, last_updated = now\<rparr>]"
  by (simp add: get_mock_capacity_data_def new_AreaCapacity_def)

text \<open>
  Claim C9. Whenever the query for all areas returns no area, \<open>GET /api/capacity\<close>
  answers not with an empty list but with the six hard-coded areas of
  \<open>get_mock_capacity_data\<close>, whose counts are not zero (the weight room at 45 of 100),
  in the shape of real data.
\<close>

theorem empty_database_serves_mock_data:
  assumes "get_all_areas self_table t now = Inr []"
  shows "get_all_capacity self_table t now =
     Inr \<lparr>CapacityResponse.timestamp = now, areas =
         [\<lparr>AreaCapacity.area_id = ''weight-room'', name = ''Weight Room'', current_count = 45,
            max_capacity = 100, is_open = True, last_updated = now\<rparr>,
          \<lparr>AreaCapacity.area_id = ''cardio'', name = ''Cardio Area'', current_count = 32,
            max_capacity = 60, is_open = True, last_updated = now\<rparr>,
          \<lparr>AreaCapacity.area_id = ''track'', name = ''Indoor Track'', current_count = 18,
            max_capacity = 50, is_open = True, last_updated = now\<rparr>,
          \<lparr>AreaCapacity.area_id = ''pool'', name = ''Swimming Pool'', current_count = 12,
            max_capacity = 40, is_open = True, last_updated = now\<rparr>,
          \<lparr>AreaCapacity.area_id = ''basketball'', name = ''Basketball Courts'',
            current_count = 24, max_capacity = 30, is_open = True, last_updated = now\<rparr>,
          \<lparr>AreaCapacity.area_id = ''climbing'', name = ''Climbing Wall'', current_count = 8,
            max_capacity = 15, is_open = True, last_updated = now\<rparr>]\<rparr>"
  using assms by (simp add: get_all_capacity_def get_mock_capacity_data_eq)

theorem empty_database_serves_mock_data_witness:
  "get_all_areas True [] ''t1'' = Inr []
   \<and> map_sum id (\<lambda>r. map (\<lambda>a. (AreaCapacity.area_id a, current_count a, max_capacity a)) (areas r))
        (get_all_capacity True [] ''t1'')
     = Inr [(''weight-room'', 45, 100), (''cardio'', 32, 60), (''track'', 18, 50),
            (''pool'', 12, 40), (''basketball'', 24, 30), (''climbing'', 8, 15)]"
proof -
  have h: "get_all_areas True [] ''t1'' = Inr []"
    by (simp add: get_all_areas_def)
  show ?thesis
    using h empty_database_serves_mock_data [OF h] by simp
qed

section \<open>The response of a reset\<close>



section \<open>Concurrent updates\<close>

text \<open>
  An invocation that runs with no other in between does what \<open>lambda_update_capacity\<close>
  does: the two steps are that function cut in two.
\<close>

lemma invocation_alone:
  "(case invocation_step t area (Start act cnt now) of
      (inv1, t1) \<Rightarrow> invocation_step t1 area inv1) =
   (Finished (fst (lambda_update_capacity t area act cnt now)),
    snd (lambda_update_capacity t area act cnt now))"
  by (simp add: lambda_update_capacity_def update_item_eq Let_def
      set_count_inc_add_one_def)

lemma enter_step:
  assumes "stored_count t area = Some k" and "0 \<le> k"
  shows "is_Finished (fst (invocation_step t area (Start ''enter'' 1 now)))"
    and "stored_count (snd (invocation_step t area (Start ''enter'' 1 now))) area = Some (k + 1)"
proof -
  let ?new = "set_count_inc_add_one 1 now (old_item t (area_pk area) ''METADATA'')"
  have c: "item.current_count ?new = Some (k + 1)"
    using assms(1)
    by (simp add: set_count_inc_add_one_def stored_count_old_item if_not_exists_def)
  have k: "PK ?new = area_pk area" "SK ?new = ''METADATA''"
    by (simp_all add: set_count_inc_add_one_def)
  have step: "invocation_step t area (Start ''enter'' 1 now) = (Finished (Inr ?new), put_item t ?new)"
    using c assms(2) by (simp add: update_item_eq)
  show "is_Finished (fst (invocation_step t area (Start ''enter'' 1 now)))"
    unfolding step by simp
  show "stored_count (snd (invocation_step t area (Start ''enter'' 1 now))) area = Some (k + 1)"
    unfolding step snd_conv stored_count_put_item [OF k] by (rule c)
qed

lemma filter_update_new:
  assumes "i < length xs" and "\<not> P (xs ! i)" and "P y"
  shows "length (filter P (xs[i := y])) = Suc (length (filter P xs))"
proof -
  have xs: "xs = take i xs @ xs ! i # drop (Suc i) xs"
    using assms(1) by (rule id_take_nth_drop)
  have up: "xs[i := y] = take i xs @ y # drop (Suc i) xs"
    using assms(1) by (rule upd_conv_take_nth_drop)
  have "length (filter P xs) = length (filter P (take i xs)) + length (filter P (drop (Suc i) xs))"
    by (subst xs) (simp add: assms(2))
  moreover have "length (filter P (xs[i := y])) =
      Suc (length (filter P (take i xs)) + length (filter P (drop (Suc i) xs)))"
    by (simp add: up assms(3))
  ultimately show ?thesis by simp
qed

lemma enters_pending_step:
  assumes "enters_pending t area c invs" and "0 \<le> c"
  shows "enters_pending (fst (schedule_step area (t, invs) i)) area c
           (snd (schedule_step area (t, invs) i))
       \<and> length (snd (schedule_step area (t, invs) i)) = length invs"
proof (cases "i < length invs")
  case False
  then show ?thesis using assms by simp
next
  case True
  from assms(1) have all: "list_all (\<lambda>i. is_Finished i \<or> is_pending_enter i) invs"
    and cnt: "stored_count t area = Some (c + int (length (filter is_Finished invs)))"
    by (simp_all add: enters_pending_def)
  from all True have "is_Finished (invs ! i) \<or> is_pending_enter (invs ! i)"
    by (simp add: list_all_length)
  then show ?thesis
  proof
    assume f: "is_Finished (invs ! i)"
    then obtain r where r: "invs ! i = Finished r"
      by (cases "invs ! i") simp_all
    then have same: "schedule_step area (t, invs) i = (t, invs)"
      using True by (simp add: list_update_same_conv)
    show ?thesis unfolding same using assms(1) by simp
  next
    assume "is_pending_enter (invs ! i)"
    then obtain now where s: "invs ! i = Start ''enter'' 1 now"
      by (cases "invs ! i") simp_all
    let ?k = "c + int (length (filter is_Finished invs))"
    have k0: "0 \<le> ?k" using assms(2) by simp
    obtain inv1 t1 where st: "invocation_step t area (Start ''enter'' 1 now) = (inv1, t1)"
      by (cases "invocation_step t area (Start ''enter'' 1 now)")
    from enter_step [OF cnt k0, of now] st
    have fin: "is_Finished inv1" and c1: "stored_count t1 area = Some (?k + 1)"
      by simp_all
    have ss: "schedule_step area (t, invs) i = (t1, invs[i := inv1])"
      using True s st by simp
    have nf: "\<not> is_Finished (invs ! i)" by (simp add: s)
    have len: "length (filter is_Finished (invs[i := inv1])) = Suc (length (filter is_Finished invs))"
      using True nf fin by (rule filter_update_new)
    have all1: "list_all (\<lambda>i. is_Finished i \<or> is_pending_enter i) (invs[i := inv1])"
      using all fin True
      by (auto simp: list_all_length nth_list_update)
    show ?thesis
      unfolding ss using c1 len all1 by (simp add: enters_pending_def)
  qed
qed

lemma enters_pending_run:
  assumes "enters_pending t area c invs" and "0 \<le> c"
  shows "enters_pending (fst (run_schedule area (t, invs) sched)) area c
           (snd (run_schedule area (t, invs) sched))
       \<and> length (snd (run_schedule area (t, invs) sched)) = length invs"
  using assms(1)
proof (induction sched arbitrary: t invs)
  case Nil
  then show ?case by (simp add: run_schedule_def)
next
  case (Cons i sched)
  obtain t1 invs1 where s: "schedule_step area (t, invs) i = (t1, invs1)"
    by (cases "schedule_step area (t, invs) i")
  from enters_pending_step [OF Cons.prems assms(2), of i] s
  have p: "enters_pending t1 area c invs1" and l: "length invs1 = length invs"
    by simp_all
  have r: "run_schedule area (t, invs) (i # sched) = run_schedule area (t1, invs1) sched"
    using s by (simp add: run_schedule_def)
  from Cons.IH [OF p] l show ?case by (simp add: r)
qed

lemma concurrent_enters_add_up:
  assumes "stored_count t area = Some c" and "0 \<le> c"
    and "list_all is_Finished (snd (run_schedule area (t, map (Start ''enter'' 1) nows) sched))"
  shows "stored_count (fst (run_schedule area (t, map (Start ''enter'' 1) nows) sched)) area
           = Some (c + int (length nows))"
proof -
  let ?invs = "map (Start ''enter'' 1) nows"
  have f0: "filter is_Finished ?invs = []"
    by (induction nows) simp_all
  have p0: "enters_pending t area c ?invs"
    using assms(1) by (simp add: enters_pending_def f0 list_all_iff)
  from enters_pending_run [OF p0 assms(2), of sched]
  have p: "enters_pending (fst (run_schedule area (t, ?invs) sched)) area c
           (snd (run_schedule area (t, ?invs) sched))"
    and l: "length (snd (run_schedule area (t, ?invs) sched)) = length nows"
    by simp_all
  from assms(3) have "filter is_Finished (snd (run_schedule area (t, ?invs) sched))
      = snd (run_schedule area (t, ?invs) sched)"
    by (simp add: list_all_iff)
  with p l show ?thesis by (simp add: enters_pending_def)
qed

text \<open>
  Claim C8. Concurrent updates of one area should lose no update under any
  interleaving, also when the corrective write of the clamp races with other writers.
  For invocations that all enter, every schedule adds them up (lemma
  \<open>concurrent_enters_add_up\<close>). With an exit among them the corrective write is a
  second, separate step, and the claim fails: on \<open>pool\<close> at count 0, one exit and two
  enters run one after the other leave 2 or 1 in each of the six orders, but the
  schedule in which both enters land between the exit's two writes finishes all three
  invocations and leaves 0.
\<close>

theorem corrective_write_loses_updates:
  "map (\<lambda>sched. stored_count (fst (run_schedule ''pool''
          (example_table,
           [Start ''exit'' 1 ''t1'', Start ''enter'' 1 ''t2'', Start ''enter'' 1 ''t3''])
          sched)) ''pool'')
     [[0, 0, 1, 2], [0, 0, 2, 1], [1, 0, 0, 2], [2, 0, 0, 1], [1, 2, 0, 0], [2, 1, 0, 0]]
     = [Some 2, Some 2, Some 1, Some 1, Some 1, Some 1]
   \<and> list_all is_Finished (snd (run_schedule ''pool''
          (example_table,
           [Start ''exit'' 1 ''t1'', Start ''enter'' 1 ''t2'', Start ''enter'' 1 ''t3''])
          [0, 1, 2, 0]))
   \<and> stored_count (fst (run_schedule ''pool''
          (example_table,
           [Start ''exit'' 1 ''t1'', Start ''enter'' 1 ''t2'', Start ''enter'' 1 ''t3''])
          [0, 1, 2, 0])) ''pool'' = Some 0"
  by (simp add: run_schedule_def table_defs)

end
